theory Spec2Isabelle
  imports Complex_Main "HOL-Library.Sublist" "HOL-Library.AList"
begin

section \<open>The head-sensitivity pipeline of analyze\_a2a.py\<close>

text \<open>
  The script is one function, \<open>main\<close>. It looks up the residue names of the allosteric
  sites, flattens the impact and SNR grids into per-head records, attaches a p-value to
  every head, selects the sensitive heads, writes a percentile-filtered CSV report of the
  accumulated attention, and stores the selection with the attention maps of the selected
  heads. Each step is a function here, in the order of the script; \<open>main_with\<close> chains
  them and records which files exist when the run ends or an exception leaves it.

  A Python float is modelled by the real number it denotes, so the comparisons of the
  script are exact; NaN is outside the model. Arithmetic on floats is rounded, and the
  script leaves all of it to libraries: the value \<open>np.percentile\<close> computes and the
  p-value of \<open>scipy.stats.ttest_1samp\<close> are therefore parameters, as are the analyzer
  object and the Biopython letter table, none of which is part of the script. Exceptions
  are values.
\<close>

subsection \<open>Exceptions and the steps that can raise them\<close>

datatype py_error = AssertionError | IndexError | KeyError | RuntimeError

datatype stage =
  ResidueLookup | HeadStatistics | Percentile | Report | MeanMap | HeadRecord | AttentionRecord

subsection \<open>Python sequence indexing\<close>

text \<open>\<open>xs[i]\<close> for a Python int \<open>i\<close>: a negative index counts from the end, and an index
  outside \<open>-len \<le> i < len\<close> raises IndexError.\<close>

definition py_getitem :: "'a list \<Rightarrow> int \<Rightarrow> py_error + 'a" where
  "py_getitem xs i =
     (let n = int (length xs);
          j = (if i < 0 then i + n else i)
      in if j < 0 \<or> n \<le> j then Inl IndexError else Inr (xs ! nat j))"

text \<open>\<open>d[k]\<close> for a dict: KeyError when the key is missing.\<close>

definition dict_getitem :: "('k \<rightharpoonup> 'v) \<Rightarrow> 'k \<Rightarrow> py_error + 'v" where
  "dict_getitem d k = (case d k of None \<Rightarrow> Inl KeyError | Some v \<Rightarrow> Inr v)"

text \<open>A list comprehension or an appending loop whose body can raise: the first exception
  ends it.\<close>

fun traverse :: "('a \<Rightarrow> py_error + 'b) \<Rightarrow> 'a list \<Rightarrow> py_error + 'b list" where
  "traverse f [] = Inr []"
| "traverse f (x # xs) =
     (case f x of
        Inl e \<Rightarrow> Inl e
      | Inr y \<Rightarrow> (case traverse f xs of Inl e \<Rightarrow> Inl e | Inr ys \<Rightarrow> Inr (y # ys)))"

subsection \<open>Residue names of the allosteric sites (lines 25--28)\<close>

text \<open>\<open>for i in allosteric_res: allosteric_res_3l.append(one_to_three[sequence[i-1]])\<close>\<close>

definition residue_3l :: "(char \<rightharpoonup> string) \<Rightarrow> string \<Rightarrow> int \<Rightarrow> py_error + string" where
  "residue_3l one_to_three sequence i =
     (case py_getitem sequence (i - 1) of
        Inl e \<Rightarrow> Inl e
      | Inr c \<Rightarrow> dict_getitem one_to_three c)"

definition allosteric_res_3l ::
  "(char \<rightharpoonup> string) \<Rightarrow> string \<Rightarrow> int list \<Rightarrow> py_error + string list" where
  "allosteric_res_3l one_to_three sequence allosteric_res =
     traverse (residue_3l one_to_three sequence) allosteric_res"

subsection \<open>Tensors\<close>

text \<open>A tensor is its shape and its elements in row-major order. \<open>wf_tensor\<close> is the
  invariant every torch tensor has: as many elements as the shape says.\<close>

record tensor =
  shape :: "nat list"
  storage :: "real list"

definition wf_tensor :: "tensor \<Rightarrow> bool" where
  "wf_tensor t = (length (storage t) = prod_list (shape t))"

definition ndim :: "tensor \<Rightarrow> nat" where
  "ndim t = length (shape t)"

text \<open>\<open>t[i]\<close> for \<open>i \<ge> 0\<close>: the \<open>i\<close>-th slice along the first axis; IndexError on a
  0-dimensional tensor and on an index that is not below the first extent.\<close>

definition select :: "tensor \<Rightarrow> nat \<Rightarrow> py_error + tensor" where
  "select t i =
     (case shape t of
        [] \<Rightarrow> Inl IndexError
      | n # rest \<Rightarrow>
          if i < n
          then Inr \<lparr>shape = rest,
                    storage = take (prod_list rest) (drop (i * prod_list rest) (storage t))\<rparr>
          else Inl IndexError)"

text \<open>\<open>t.item()\<close>: the value of a tensor with exactly one element.\<close>

definition item :: "tensor \<Rightarrow> py_error + real" where
  "item t = (if prod_list (shape t) = 1 then Inr (storage t ! 0) else Inl RuntimeError)"

text \<open>\<open>t[l][h]\<close>\<close>

definition select2 :: "tensor \<Rightarrow> nat \<Rightarrow> nat \<Rightarrow> py_error + tensor" where
  "select2 t l h = (case select t l of Inl e \<Rightarrow> Inl e | Inr row \<Rightarrow> select row h)"

text \<open>\<open>t[l][h].item()\<close>\<close>

definition item2 :: "tensor \<Rightarrow> nat \<Rightarrow> nat \<Rightarrow> py_error + real" where
  "item2 t l h = (case select2 t l h of Inl e \<Rightarrow> Inl e | Inr c \<Rightarrow> item c)"

text \<open>\<open>attention_maps[0, l, h]\<close>\<close>

definition attention_map :: "tensor \<Rightarrow> nat \<times> nat \<Rightarrow> py_error + tensor" where
  "attention_map attention_maps lh =
     (case select attention_maps 0 of
        Inl e \<Rightarrow> Inl e
      | Inr batch \<Rightarrow> select2 batch (fst lh) (snd lh))"

text \<open>\<open>t.unsqueeze(0)\<close>\<close>

definition unsqueeze0 :: "tensor \<Rightarrow> tensor" where
  "unsqueeze0 t = \<lparr>shape = 1 # shape t, storage = storage t\<rparr>"

text \<open>\<open>torch.cat(ts, dim=0)\<close>: the list must not be empty, no tensor may be
  0-dimensional, and the shapes must agree after the first axis.\<close>

definition torch_cat :: "tensor list \<Rightarrow> py_error + tensor" where
  "torch_cat ts =
     (case ts of
        [] \<Rightarrow> Inl RuntimeError
      | t # _ \<Rightarrow>
          if (\<exists>u \<in> set ts. shape u = []) \<or> (\<exists>u \<in> set ts. tl (shape u) \<noteq> tl (shape t))
          then Inl RuntimeError
          else Inr \<lparr>shape = sum_list (map (\<lambda>u. hd (shape u)) ts) # tl (shape t),
                    storage = concat (map storage ts)\<rparr>)"

text \<open>\<open>torch.stack(ts)\<close>: every tensor gets a new first axis, then they are concatenated;
  all shapes must be equal.\<close>

definition torch_stack :: "tensor list \<Rightarrow> py_error + tensor" where
  "torch_stack ts = torch_cat (map unsqueeze0 ts)"

text \<open>\<open>torch.mean(t, dim=0)\<close>: the element-wise mean of the slices along the first axis
  (in exact arithmetic; the script only computes the map, and no property below is about
  its values).\<close>

definition torch_mean0 :: "tensor \<Rightarrow> py_error + tensor" where
  "torch_mean0 t =
     (case shape t of
        [] \<Rightarrow> Inl IndexError
      | n # rest \<Rightarrow>
          Inr \<lparr>shape = rest,
               storage = map (\<lambda>j. (\<Sum>k \<leftarrow> [0..<n]. storage t ! (k * prod_list rest + j)) / real n)
                             [0..<prod_list rest]\<rparr>)"

subsection \<open>The head-statistics table (lines 41--58)\<close>

record results =
  impacts :: tensor
  snrs :: tensor
  p_values :: tensor

type_synonym head_stat = "nat \<times> nat \<times> real \<times> real"

text \<open>The inner loop, \<open>for head in range(num_heads)\<close>, appending to \<open>head_stats\<close>.\<close>

fun head_loop ::
  "tensor \<Rightarrow> tensor \<Rightarrow> nat \<Rightarrow> nat list \<Rightarrow> head_stat list \<Rightarrow> py_error + head_stat list" where
  "head_loop impact_scores_tensor snr_values_tensor layer [] head_stats = Inr head_stats"
| "head_loop impact_scores_tensor snr_values_tensor layer (head # heads) head_stats =
     (case item2 impact_scores_tensor layer head of
        Inl e \<Rightarrow> Inl e
      | Inr impact \<Rightarrow>
          (case item2 snr_values_tensor layer head of
             Inl e \<Rightarrow> Inl e
           | Inr snr \<Rightarrow>
               head_loop impact_scores_tensor snr_values_tensor layer heads
                 (head_stats @ [(layer, head, impact, snr)])))"

text \<open>The outer loop, \<open>for layer in range(num_layers)\<close>.\<close>

fun layer_loop ::
  "tensor \<Rightarrow> tensor \<Rightarrow> nat \<Rightarrow> nat list \<Rightarrow> head_stat list \<Rightarrow> py_error + head_stat list" where
  "layer_loop impact_scores_tensor snr_values_tensor num_heads [] head_stats = Inr head_stats"
| "layer_loop impact_scores_tensor snr_values_tensor num_heads (layer # layers) head_stats =
     (case head_loop impact_scores_tensor snr_values_tensor layer [0..<num_heads] head_stats of
        Inl e \<Rightarrow> Inl e
      | Inr head_stats' \<Rightarrow>
          layer_loop impact_scores_tensor snr_values_tensor num_heads layers head_stats')"

text \<open>The two assertions on the rank, the unpacking of the impact grid's shape, and the
  loops.\<close>

definition head_stats :: "results \<Rightarrow> py_error + head_stat list" where
  "head_stats res =
     (let impact_scores_tensor = impacts res;
          snr_values_tensor = snrs res
      in if ndim impact_scores_tensor \<noteq> 2 then Inl AssertionError
         else if ndim snr_values_tensor \<noteq> 2 then Inl AssertionError
         else
           (let num_layers = shape impact_scores_tensor ! 0;
                num_heads = shape impact_scores_tensor ! 1
            in layer_loop impact_scores_tensor snr_values_tensor num_heads [0..<num_layers] []))"

subsection \<open>Significance and selection (lines 66--79)\<close>

type_synonym t_stat = "nat \<times> nat \<times> real \<times> real \<times> real"

text \<open>\<open>ttest_1samp(impacts, impact, alternative='less')\<close> returns the statistic and
  the p-value; it is the parameter \<open>ttest_1samp\<close>.\<close>

definition t_stats :: "(real list \<Rightarrow> real \<Rightarrow> real \<times> real) \<Rightarrow> head_stat list \<Rightarrow> t_stat list" where
  "t_stats ttest_1samp hs =
     (let impacts = map (\<lambda>(layer, head, impact, snr). impact) hs
      in map (\<lambda>(layer, head, impact, snr).
                (layer, head, impact, snr, snd (ttest_1samp impacts impact))) hs)"

definition sensitive_heads :: "t_stat list \<Rightarrow> (nat \<times> nat) list" where
  "sensitive_heads ts =
     map (\<lambda>(layer, head, impact, snr, p_val). (layer, head))
       (filter (\<lambda>(layer, head, impact, snr, p_val). p_val < 0.01 \<and> snr > 2.0) ts)"

subsection \<open>The percentile report (lines 99--111)\<close>

text \<open>A Python dict is an association list in insertion order with distinct keys:
  \<open>d.values()\<close> is \<open>map snd d\<close>, \<open>d.keys()\<close> is \<open>map fst d\<close>, \<open>d[k]\<close> looks the key up.\<close>

type_synonym attention_dict = "(int \<times> real) list"

text \<open>
  \<open>np.percentile(a, q)\<close>. On an empty array numpy raises IndexError (there is no order
  statistic to take). On a non-empty array it returns the percentile by its default
  method, linear interpolation between order statistics, computed in float64: the rounding
  of that computation decides the result (for the two values 1.0 and 1.0000000000000002
  the 95th percentile it returns is the larger value itself), so the returned float is not
  derived here but given by the parameter \<open>percentile\<close>.
\<close>

definition np_percentile ::
  "(real list \<Rightarrow> real \<Rightarrow> real) \<Rightarrow> real list \<Rightarrow> real \<Rightarrow> py_error + real" where
  "np_percentile percentile a q = (if a = [] then Inl IndexError else Inr (percentile a q))"

datatype csv_row = Header "string list" | Row (row_residue: char) (row_position: int) (row_value: real)

definition header :: csv_row where
  "header = Header [''Residue'', ''Position'', ''AvgAccAtt'']"

text \<open>The loop \<open>for i in sorted(accumulated_attention.keys())\<close>; \<open>written\<close> is what the
  file holds so far, and an exception leaves the file as it is.\<close>

fun write_rows ::
  "string \<Rightarrow> attention_dict \<Rightarrow> real \<Rightarrow> int list \<Rightarrow> csv_row list \<Rightarrow> csv_row list \<times> py_error option" where
  "write_rows sequence accumulated_attention percentile_85 [] written = (written, None)"
| "write_rows sequence accumulated_attention percentile_85 (i # keys) written =
     (case dict_getitem (map_of accumulated_attention) i of
        Inl e \<Rightarrow> (written, Some e)
      | Inr avg_attention \<Rightarrow>
          if avg_attention > percentile_85
          then (case py_getitem sequence (i - 1) of
                  Inl e \<Rightarrow> (written, Some e)
                | Inr residue \<Rightarrow>
                    write_rows sequence accumulated_attention percentile_85 keys
                      (written @ [Row residue i avg_attention]))
          else write_rows sequence accumulated_attention percentile_85 keys written)"

text \<open>The percentile is computed before the file is opened; the header is written on
  opening. The result is the file (if it was created) and the exception (if one was
  raised) with the step that raised it.\<close>

definition percentile_report ::
  "(real list \<Rightarrow> real \<Rightarrow> real) \<Rightarrow> string \<Rightarrow> attention_dict
     \<Rightarrow> csv_row list option \<times> (stage \<times> py_error) option" where
  "percentile_report percentile sequence accumulated_attention =
     (let attention_values = map snd accumulated_attention
      in case np_percentile percentile attention_values 95 of
           Inl e \<Rightarrow> (None, Some (Percentile, e))
         | Inr percentile_85 \<Rightarrow>
             (case write_rows sequence accumulated_attention percentile_85
                     (sort (map fst accumulated_attention)) [header] of
                (written, None) \<Rightarrow> (Some written, None)
              | (written, Some e) \<Rightarrow> (Some written, Some (Report, e))))"

subsection \<open>The mean map and the persisted records (lines 117--148)\<close>

text \<open>The body of the first \<open>if sensitive_heads:\<close>: the stack of the selected heads'
  attention maps, its mean, and the three lists of 0-dimensional tensors (which are not
  used afterwards, but whose indexing can raise).\<close>

definition mean_attention_map ::
  "results \<Rightarrow> tensor \<Rightarrow> (nat \<times> nat) list \<Rightarrow> py_error + tensor option" where
  "mean_attention_map res attention_maps sel =
     (if sel = [] then Inr None
      else
        (case traverse (attention_map attention_maps) sel of
           Inl e \<Rightarrow> Inl e
         | Inr maps \<Rightarrow>
        (case torch_stack maps of
           Inl e \<Rightarrow> Inl e
         | Inr attention_stack \<Rightarrow>
        (case torch_mean0 attention_stack of
           Inl e \<Rightarrow> Inl e
         | Inr mean_map \<Rightarrow>
        (case traverse (\<lambda>(l, h). select2 (impacts res) l h) sel of
           Inl e \<Rightarrow> Inl e
         | Inr sensitive_impact_scores \<Rightarrow>
        (case traverse (\<lambda>(l, h). select2 (snrs res) l h) sel of
           Inl e \<Rightarrow> Inl e
         | Inr sensitive_snr_values \<Rightarrow>
        (case traverse (\<lambda>(l, h). select2 (p_values res) l h) sel of
           Inl e \<Rightarrow> Inl e
         | Inr sensitive_p_values \<Rightarrow> Inr (Some mean_map))))))))"

text \<open>\<open>str(n)\<close> for a non-negative int, and the key \<open>f"{l}_{h}"\<close>.\<close>

fun str_nat :: "nat \<Rightarrow> string" where
  "str_nat n =
     (if n < 10 then [''0123456789'' ! n]
      else str_nat (n div 10) @ [''0123456789'' ! (n mod 10)])"

declare str_nat.simps [simp del]

definition head_key :: "nat \<times> nat \<Rightarrow> string" where
  "head_key lh = str_nat (fst lh) @ ''_'' @ str_nat (snd lh)"

text \<open>A dict comprehension: a later pair with a key seen before replaces the value and
  keeps the key's place.\<close>

definition dict_of :: "('k \<times> 'v) list \<Rightarrow> ('k \<times> 'v) list" where
  "dict_of kvs = foldl (\<lambda>d (k, v). AList.update k v d) [] kvs"

record head_info =
  hi_sensitive_heads :: "(nat \<times> nat) list"
  hi_impact_scores :: "(string \<times> real) list"
  hi_snr_values :: "(string \<times> real) list"

definition head_info_of :: "results \<Rightarrow> (nat \<times> nat) list \<Rightarrow> py_error + head_info" where
  "head_info_of res sel =
     (case traverse (\<lambda>(l, h). item2 (impacts res) l h) sel of
        Inl e \<Rightarrow> Inl e
      | Inr imps \<Rightarrow>
     (case traverse (\<lambda>(l, h). item2 (snrs res) l h) sel of
        Inl e \<Rightarrow> Inl e
      | Inr sns \<Rightarrow>
          Inr \<lparr>hi_sensitive_heads = sel,
               hi_impact_scores = dict_of (zip (map head_key sel) imps),
               hi_snr_values = dict_of (zip (map head_key sel) sns)\<rparr>))"

text \<open>The body of the second \<open>if sensitive_heads:\<close>: every selected head's map with a
  new first axis, concatenated along it.\<close>

definition sensitive_attention_tensor :: "tensor \<Rightarrow> (nat \<times> nat) list \<Rightarrow> py_error + tensor" where
  "sensitive_attention_tensor attention_maps sel =
     (case traverse (attention_map attention_maps) sel of
        Inl e \<Rightarrow> Inl e
      | Inr maps \<Rightarrow> torch_cat (map unsqueeze0 maps))"

subsection \<open>The run\<close>

text \<open>The analyzer object: the three methods the script calls.\<close>

record analyzer =
  analyze_protein :: "string \<Rightarrow> int list \<Rightarrow> results"
  get_attention_maps :: "string \<Rightarrow> tensor"
  compute_accumulated_average_attention ::
    "tensor \<Rightarrow> string \<Rightarrow> int list \<Rightarrow> (nat \<times> nat) list \<Rightarrow> attention_dict"

text \<open>What a run leaves: the exception that ended it and the step that raised it (if
  any), the selection and the mean map (if the run got that far), and the three files
  (if they were written): the CSV report, \<open>sensitive_heads.pt\<close> and
  \<open>sensitive_attention_maps.pt\<close>.\<close>

record outcome =
  failure :: "(stage \<times> py_error) option"
  selected :: "(nat \<times> nat) list option"
  report_file :: "csv_row list option"
  mean_map :: "tensor option"
  head_info_file :: "head_info option"
  attention_file :: "tensor option"

definition nothing :: outcome where
  "nothing = \<lparr>failure = None, selected = None, report_file = None, mean_map = None,
              head_info_file = None, attention_file = None\<rparr>"

definition main_with ::
  "analyzer \<Rightarrow> (real list \<Rightarrow> real \<Rightarrow> real \<times> real) \<Rightarrow> (real list \<Rightarrow> real \<Rightarrow> real)
     \<Rightarrow> (char \<rightharpoonup> string) \<Rightarrow> string \<Rightarrow> int list \<Rightarrow> outcome" where
  "main_with an ttest_1samp percentile one_to_three sequence allosteric_res =
     (case allosteric_res_3l one_to_three sequence allosteric_res of
        Inl e \<Rightarrow> nothing\<lparr>failure := Some (ResidueLookup, e)\<rparr>
      | Inr names \<Rightarrow>
     (let res = analyze_protein an sequence allosteric_res
      in case head_stats res of
        Inl e \<Rightarrow> nothing\<lparr>failure := Some (HeadStatistics, e)\<rparr>
      | Inr hs \<Rightarrow>
     (let sel = sensitive_heads (t_stats ttest_1samp hs);
          attention_maps = get_attention_maps an sequence;
          accumulated_attention =
            compute_accumulated_average_attention an attention_maps sequence allosteric_res sel;
          o1 = nothing\<lparr>selected := Some sel\<rparr>
      in case percentile_report percentile sequence accumulated_attention of
        (file, Some err) \<Rightarrow> o1\<lparr>report_file := file, failure := Some err\<rparr>
      | (file, None) \<Rightarrow>
     (let o2 = o1\<lparr>report_file := file\<rparr>
      in case mean_attention_map res attention_maps sel of
        Inl e \<Rightarrow> o2\<lparr>failure := Some (MeanMap, e)\<rparr>
      | Inr mm \<Rightarrow>
     (let o3 = o2\<lparr>mean_map := mm\<rparr>
      in case head_info_of res sel of
        Inl e \<Rightarrow> o3\<lparr>failure := Some (HeadRecord, e)\<rparr>
      | Inr hi \<Rightarrow>
     (let o4 = o3\<lparr>head_info_file := Some hi\<rparr>
      in if sel = [] then o4
         else (case sensitive_attention_tensor attention_maps sel of
                 Inl e \<Rightarrow> o4\<lparr>failure := Some (AttentionRecord, e)\<rparr>
               | Inr t \<Rightarrow> o4\<lparr>attention_file := Some t\<rparr>)))))))"

text \<open>The script's own inputs: the adenosine A2A receptor sequence and its allosteric
  sites.\<close>

definition a2a_sequence :: string where
  "a2a_sequence = ''MPIMGSSVYITVELAIAVLAILGNVLVCWAVWLNSNLQNVTNYFVVSAAAADILVGVLAIPFAIAISTGFCAACHGCLFIACFVLVLTASSIFSLLAIAIDRYIAIRIPLRYNGLVTGTRAKGIIAICWVLSFAIGLTPMLGWNNCGQPKEGKAHSQGCGEGQVACLFEDVVPMNYMVYFNFFACVLVPLLLMLGVYLRIFLAARRQLKQMESQPLPGERARSTLQKEVHAAKSLAIIVGLFALCWLPLHIINCFTFFCPDCSHAPLWLMYLAIVLSHTNSVVNPFIYAYRIREFRQTFRKIIRSHVLRQQEPFKAAAAENLYFQ''"

definition a2a_allosteric_res :: "int list" where
  "a2a_allosteric_res = [169, 253, 277, 278]"

definition main ::
  "analyzer \<Rightarrow> (real list \<Rightarrow> real \<Rightarrow> real \<times> real) \<Rightarrow> (real list \<Rightarrow> real \<Rightarrow> real)
     \<Rightarrow> (char \<rightharpoonup> string) \<Rightarrow> outcome" where
  "main an ttest_1samp percentile one_to_three =
     main_with an ttest_1samp percentile one_to_three a2a_sequence a2a_allosteric_res"

text \<open>Biopython's \<open>IUPACData.protein_letters_1to3\<close>: the twenty standard amino acids.\<close>

definition protein_letters_1to3 :: "char \<rightharpoonup> string" where
  "protein_letters_1to3 = map_of
     [(CHR ''A'', ''Ala''), (CHR ''C'', ''Cys''), (CHR ''D'', ''Asp''), (CHR ''E'', ''Glu''),
      (CHR ''F'', ''Phe''), (CHR ''G'', ''Gly''), (CHR ''H'', ''His''), (CHR ''I'', ''Ile''),
      (CHR ''K'', ''Lys''), (CHR ''L'', ''Leu''), (CHR ''M'', ''Met''), (CHR ''N'', ''Asn''),
      (CHR ''P'', ''Pro''), (CHR ''Q'', ''Gln''), (CHR ''R'', ''Arg''), (CHR ''S'', ''Ser''),
      (CHR ''T'', ''Thr''), (CHR ''V'', ''Val''), (CHR ''W'', ''Trp''), (CHR ''Y'', ''Tyr'')]"

subsection \<open>A small run\<close>

text \<open>A two-layer, two-head analyzer for evaluating the definitions above on the script's
  sequence: two heads, (0, 1) and (1, 1), have a high impact and a high SNR, and the
  accumulated attention covers the first five residues. \<open>demo_ttest\<close> stands in for the
  t-test: it calls an impact above 3 significant.\<close>

definition demo_results :: results where
  "demo_results =
     \<lparr>impacts = \<lparr>shape = [2, 2], storage = [1, 5, 1, 5]\<rparr>,
      snrs = \<lparr>shape = [2, 2], storage = [1, 3, 2, 3]\<rparr>,
      p_values = \<lparr>shape = [2, 2], storage = [0.5, 0.5, 0.5, 0.5]\<rparr>\<rparr>"

definition demo_attention :: tensor where
  "demo_attention =
     \<lparr>shape = [1, 2, 2, 2, 2],
      storage = [1, 2, 3, 4, 5, 6, 7, 8, 9, 10, 11, 12, 13, 14, 15, 16]\<rparr>"

definition demo_accumulated :: attention_dict where
  "demo_accumulated = [(3, 0.9), (1, 0.1), (2, 0.2), (5, 0.4), (4, 0.3)]"

definition demo_analyzer :: analyzer where
  "demo_analyzer =
     \<lparr>analyze_protein = (\<lambda>sequence allosteric_sites. demo_results),
      get_attention_maps = (\<lambda>sequence. demo_attention),
      compute_accumulated_average_attention =
        (\<lambda>attention_maps sequence allosteric_sites sensitive_heads. demo_accumulated)\<rparr>"

definition demo_ttest :: "real list \<Rightarrow> real \<Rightarrow> real \<times> real" where
  "demo_ttest population popmean = (0, if popmean > 3 then 0.001 else 0.5)"

text \<open>\<open>demo_percentile\<close> stands in for numpy's percentile on a non-empty list: linear
  interpolation between order statistics in exact arithmetic, without numpy's rounding.
  With \<open>h = (n - 1) * q / 100\<close> it is the weighted mean of the order statistics at
  \<open>\<lfloor>h\<rfloor>\<close> and at the next index, the upper one weighted by the fractional part of
  \<open>h\<close>.\<close>

definition demo_percentile :: "real list \<Rightarrow> real \<Rightarrow> real" where
  "demo_percentile xs q =
     (let s = sort xs;
          h = (real (length xs) - 1) * q / 100;
          k = nat \<lfloor>h\<rfloor>;
          frac = h - of_int \<lfloor>h\<rfloor>
      in (1 - frac) * s ! k + frac * s ! min (k + 1) (length xs - 1))"

section \<open>Properties\<close>

subsection \<open>Selection\<close>

text \<open>
  C1. For every list of head statistics, the selected pairs are exactly the
  (layer, head) pairs of the records whose p-value is strictly below 0.01 and whose SNR is
  strictly above 2.0 (a record with SNR exactly 2.0 is not selected); the selection is a
  subsequence of the input's pairs, so it keeps the input's row-major order, and it has one
  entry per record that passes.
\<close>

theorem sensitive_heads_exact:
  "set (sensitive_heads ts) =
     {(layer, head). \<exists>impact snr p_val.
        (layer, head, impact, snr, p_val) \<in> set ts \<and> p_val < 0.01 \<and> snr > 2.0}
   \<and> subseq (sensitive_heads ts) (map (\<lambda>(layer, head, impact, snr, p_val). (layer, head)) ts)
   \<and> length (sensitive_heads ts) =
       length (filter (\<lambda>(layer, head, impact, snr, p_val). p_val < 0.01 \<and> snr > 2.0) ts)"
proof (intro conjI)
  show "set (sensitive_heads ts) =
     {(layer, head). \<exists>impact snr p_val.
        (layer, head, impact, snr, p_val) \<in> set ts \<and> p_val < 0.01 \<and> snr > 2.0}"
    by (auto simp: sensitive_heads_def image_iff) blast
  show "subseq (sensitive_heads ts) (map (\<lambda>(layer, head, impact, snr, p_val). (layer, head)) ts)"
    unfolding sensitive_heads_def by (intro subseq_map subseq_filter_left)
  show "length (sensitive_heads ts) =
       length (filter (\<lambda>(layer, head, impact, snr, p_val). p_val < 0.01 \<and> snr > 2.0) ts)"
    by (simp add: sensitive_heads_def)
qed

subsection \<open>The head-statistics table\<close>

lemma item2_rank2:
  "shape t = [L, H] \<Longrightarrow>
   item2 t l h = (if l < L \<and> h < H
                  then Inr (take 1 (drop h (take H (drop (l * H) (storage t)))) ! 0)
                  else Inl IndexError)"
  by (simp add: item2_def select2_def select_def item_def)

lemma cell_value:
  "h < H \<Longrightarrow> l < L \<Longrightarrow> length st = L * H \<Longrightarrow>
   take 1 (drop h (take H (drop (l * H) st))) ! 0 = st ! (l * H + h)"
proof -
  assume a: "h < H" "l < L" "length st = L * H"
  have "l * H + H \<le> L * H"
    using a(2) by (metis Suc_leI mult_Suc mult_le_mono1 add.commute)
  then have len: "l * H + h < length st" using a by simp
  then show ?thesis using a by (simp add: nth_append)
qed

lemma cell_value':
  "h < H \<Longrightarrow> l < L \<Longrightarrow> length st = L * H \<Longrightarrow>
   drop h (take H (drop (l * H) st)) ! 0 = st ! (l * H + h)"
  using cell_value [of h H l L st] by simp

lemma item2_wf:
  "shape t = [L, H] \<Longrightarrow> wf_tensor t \<Longrightarrow> l < L \<Longrightarrow> h < H \<Longrightarrow>
   item2 t l h = Inr (storage t ! (l * H + h))"
  using cell_value [of h H l L "storage t"] by (simp add: item2_rank2 wf_tensor_def)

lemma head_loop_result:
  assumes "\<And>h. item2 imp l h = (if P h then Inr (f h) else Inl IndexError)"
    and "\<And>h. item2 snr l h = (if Q h then Inr (g h) else Inl IndexError)"
  shows "head_loop imp snr l hs acc =
     (if \<forall>h \<in> set hs. P h \<and> Q h then Inr (acc @ map (\<lambda>h. (l, h, f h, g h)) hs)
      else Inl IndexError)"
  by (induction hs arbitrary: acc) (simp_all add: assms)

lemma layer_loop_result:
  assumes "\<And>l h. item2 imp l h = (if P l h then Inr (f l h) else Inl IndexError)"
    and "\<And>l h. item2 snr l h = (if Q l h then Inr (g l h) else Inl IndexError)"
  shows "layer_loop imp snr H ls acc =
     (if \<forall>l \<in> set ls. \<forall>h < H. P l h \<and> Q l h
      then Inr (acc @ concat (map (\<lambda>l. map (\<lambda>h. (l, h, f l h, g l h)) [0..<H]) ls))
      else Inl IndexError)"
proof (induction ls arbitrary: acc)
  case Nil
  then show ?case by simp
next
  case (Cons l ls)
  have inner: "head_loop imp snr l [0..<H] acc =
     (if \<forall>h \<in> set [0..<H]. P l h \<and> Q l h
      then Inr (acc @ map (\<lambda>h. (l, h, f l h, g l h)) [0..<H]) else Inl IndexError)"
    by (rule head_loop_result) (rule assms)+
  show ?case
  proof (cases "\<forall>h < H. P l h \<and> Q l h")
    case True
    then show ?thesis using inner Cons.IH by simp
  next
    case False
    then show ?thesis using inner by auto
  qed
qed

lemma length_row_major: "length (concat (map (\<lambda>l. map (f l) [0..<H]) [0..<L])) = L * H"
  by (induction L) simp_all

lemma keys_row_major:
  "map (\<lambda>(l, h, i, s). (l, h)) (concat (map (\<lambda>l. map (\<lambda>h. (l, h, f l h, g l h)) [0..<H]) ls))
   = concat (map (\<lambda>l. map (Pair l) [0..<H]) ls)"
  by (induction ls) (simp_all add: comp_def)

lemma distinct_row_major: "distinct ls \<Longrightarrow> distinct (concat (map (\<lambda>l. map (Pair l) [0..<H]) ls))"
  by (induction ls) (auto simp: distinct_map inj_on_def)

lemma head_stats_rank2:
  assumes "shape (impacts res) = [L, H]" "shape (snrs res) = [Ls, Hs]"
  shows "head_stats res =
     (if \<forall>l < L. \<forall>h < H. l < Ls \<and> h < Hs
      then Inr (concat (map (\<lambda>l. map (\<lambda>h. (l, h,
                  take 1 (drop h (take H (drop (l * H) (storage (impacts res))))) ! 0,
                  take 1 (drop h (take Hs (drop (l * Hs) (storage (snrs res))))) ! 0))
                [0..<H]) [0..<L]))
      else Inl IndexError)"
proof -
  have "layer_loop (impacts res) (snrs res) H [0..<L] [] =
     (if \<forall>l \<in> set [0..<L]. \<forall>h < H. (l < L \<and> h < H) \<and> (l < Ls \<and> h < Hs)
      then Inr ([] @ concat (map (\<lambda>l. map (\<lambda>h. (l, h,
                  take 1 (drop h (take H (drop (l * H) (storage (impacts res))))) ! 0,
                  take 1 (drop h (take Hs (drop (l * Hs) (storage (snrs res))))) ! 0))
                [0..<H]) [0..<L]))
      else Inl IndexError)"
    by (rule layer_loop_result) (simp_all only: item2_rank2 [OF assms(1)] item2_rank2 [OF assms(2)])
  then show ?thesis using assms by (simp add: head_stats_def ndim_def)
qed

text \<open>
  C5. For impact and SNR grids of the same shape (L, H), the table has exactly L * H
  records, one per (layer, head) pair and none twice, in row-major order: all heads of
  layer 0, then layer 1, and so on; each record carries the two grids' values at its pair.
\<close>

theorem head_stats_table:
  assumes "shape (impacts res) = [L, H]" "shape (snrs res) = [L, H]"
    and "wf_tensor (impacts res)" "wf_tensor (snrs res)"
  shows "\<exists>hs. head_stats res = Inr hs
     \<and> length hs = L * H
     \<and> map (\<lambda>(layer, head, impact, snr). (layer, head)) hs
         = concat (map (\<lambda>layer. map (Pair layer) [0..<H]) [0..<L])
     \<and> distinct (map (\<lambda>(layer, head, impact, snr). (layer, head)) hs)
     \<and> set (map (\<lambda>(layer, head, impact, snr). (layer, head)) hs) = {0..<L} \<times> {0..<H}
     \<and> hs = concat (map (\<lambda>layer. map (\<lambda>head. (layer, head,
                storage (impacts res) ! (layer * H + head),
                storage (snrs res) ! (layer * H + head))) [0..<H]) [0..<L])"
proof -
  let ?f = "\<lambda>l h. take 1 (drop h (take H (drop (l * H) (storage (impacts res))))) ! 0"
  let ?g = "\<lambda>l h. take 1 (drop h (take H (drop (l * H) (storage (snrs res))))) ! 0"
  let ?hs = "concat (map (\<lambda>l. map (\<lambda>h. (l, h, ?f l h, ?g l h)) [0..<H]) [0..<L])"
  have run: "head_stats res = Inr ?hs"
    using head_stats_rank2 [OF assms(1,2)] by simp
  have keys: "map (\<lambda>(layer, head, impact, snr). (layer, head)) ?hs
      = concat (map (\<lambda>layer. map (Pair layer) [0..<H]) [0..<L])"
    by (rule keys_row_major)
  have vals: "?hs = concat (map (\<lambda>layer. map (\<lambda>head. (layer, head,
                storage (impacts res) ! (layer * H + head),
                storage (snrs res) ! (layer * H + head))) [0..<H]) [0..<L])"
    using assms(3,4) assms(1,2)
    by (intro arg_cong [where f = concat] map_cong refl)
       (simp add: cell_value' wf_tensor_def)
  have len: "length ?hs = L * H" by (rule length_row_major)
  have dist: "distinct (concat (map (\<lambda>layer. map (Pair layer) [0..<H]) [0..<L]))"
    by (rule distinct_row_major) simp
  have st: "set (concat (map (\<lambda>layer. map (Pair layer) [0..<H]) [0..<L])) = {0..<L} \<times> {0..<H}"
    by auto
  show ?thesis
    using run len keys dist st vals by (intro exI [of _ ?hs]) (simp only: simp_thms)
qed

theorem head_stats_table_witness:
  "shape (impacts demo_results) = [2, 2] \<and> shape (snrs demo_results) = [2, 2]
   \<and> wf_tensor (impacts demo_results) \<and> wf_tensor (snrs demo_results)
   \<and> head_stats demo_results = Inr [(0, 0, 1, 1), (0, 1, 5, 3), (1, 0, 1, 2), (1, 1, 5, 3)]"
  using head_stats_table [of demo_results 2 2]
  by (simp add: demo_results_def wf_tensor_def upt_rec)

text \<open>
  C4, as the script has it. Only the rank of the two grids is checked: a grid that is not
  of rank 2 fails the assertion before the loops start. Between two rank-2 grids there is
  no shape check. The table is built from the impact grid's shape; when the impact grid is
  empty or the SNR grid has at least as many layers and heads, the run goes on with L * H
  records (the SNR grid's further cells are not read), and otherwise the SNR grid's
  indexing raises IndexError inside the loops.
\<close>

theorem head_stats_shape_check:
  "(ndim (impacts res) \<noteq> 2 \<or> ndim (snrs res) \<noteq> 2 \<longrightarrow> head_stats res = Inl AssertionError)
   \<and> (shape (impacts res) = [L, H] \<and> shape (snrs res) = [Ls, Hs] \<longrightarrow>
        (if L = 0 \<or> H = 0 \<or> (L \<le> Ls \<and> H \<le> Hs)
         then \<exists>hs. head_stats res = Inr hs \<and> length hs = L * H
         else head_stats res = Inl IndexError))"
proof (intro conjI impI)
  assume "ndim (impacts res) \<noteq> 2 \<or> ndim (snrs res) \<noteq> 2"
  then show "head_stats res = Inl AssertionError"
    by (auto simp: head_stats_def Let_def)
next
  assume a: "shape (impacts res) = [L, H] \<and> shape (snrs res) = [Ls, Hs]"
  have iff: "(\<forall>l < L. \<forall>h < H. l < Ls \<and> h < Hs) \<longleftrightarrow> (L = 0 \<or> H = 0 \<or> (L \<le> Ls \<and> H \<le> Hs))"
  proof
    assume all: "\<forall>l < L. \<forall>h < H. l < Ls \<and> h < Hs"
    show "L = 0 \<or> H = 0 \<or> (L \<le> Ls \<and> H \<le> Hs)"
    proof (cases "L = 0 \<or> H = 0")
      case True then show ?thesis by blast
    next
      case False
      then have "L - 1 < L" "H - 1 < H" by simp_all
      with all have "L - 1 < Ls \<and> H - 1 < Hs" by blast
      then show ?thesis by linarith
    qed
  next
    assume "L = 0 \<or> H = 0 \<or> (L \<le> Ls \<and> H \<le> Hs)"
    then show "\<forall>l < L. \<forall>h < H. l < Ls \<and> h < Hs" by auto
  qed
  show "if L = 0 \<or> H = 0 \<or> (L \<le> Ls \<and> H \<le> Hs)
         then \<exists>hs. head_stats res = Inr hs \<and> length hs = L * H
         else head_stats res = Inl IndexError"
    using a head_stats_rank2 [of res L H Ls Hs] iff
    by (simp only: length_row_major split: if_splits) (simp add: length_row_major)
qed

theorem head_stats_shape_check_witness:
  "head_stats \<lparr>impacts = \<lparr>shape = [2], storage = [5, 6]\<rparr>,
                 snrs = \<lparr>shape = [1, 2], storage = [3, 4]\<rparr>,
                 p_values = \<lparr>shape = [1, 1], storage = [0]\<rparr>\<rparr> = Inl AssertionError
   \<and> head_stats \<lparr>impacts = \<lparr>shape = [1, 2], storage = [5, 6]\<rparr>,
                 snrs = \<lparr>shape = [1, 1], storage = [3]\<rparr>,
                 p_values = \<lparr>shape = [1, 1], storage = [0]\<rparr>\<rparr> = Inl IndexError
   \<and> (\<exists>hs. head_stats \<lparr>impacts = \<lparr>shape = [1, 2], storage = [5, 6]\<rparr>,
                 snrs = \<lparr>shape = [3, 2], storage = [3, 4, 7, 8, 9, 10]\<rparr>,
                 p_values = \<lparr>shape = [1, 1], storage = [0]\<rparr>\<rparr> = Inr hs \<and> length hs = 2)"
  using head_stats_shape_check [of "\<lparr>impacts = \<lparr>shape = [2], storage = [5, 6]\<rparr>,
                 snrs = \<lparr>shape = [1, 2], storage = [3, 4]\<rparr>,
                 p_values = \<lparr>shape = [1, 1], storage = [0]\<rparr>\<rparr>" 0 0 0 0]
    head_stats_shape_check [of "\<lparr>impacts = \<lparr>shape = [1, 2], storage = [5, 6]\<rparr>,
                 snrs = \<lparr>shape = [1, 1], storage = [3]\<rparr>,
                 p_values = \<lparr>shape = [1, 1], storage = [0]\<rparr>\<rparr>" 1 2 1 1]
    head_stats_shape_check [of "\<lparr>impacts = \<lparr>shape = [1, 2], storage = [5, 6]\<rparr>,
                 snrs = \<lparr>shape = [3, 2], storage = [3, 4, 7, 8, 9, 10]\<rparr>,
                 p_values = \<lparr>shape = [1, 1], storage = [0]\<rparr>\<rparr>" 1 2 3 2]
  by (simp add: ndim_def)

text \<open>The claim as stated fails: an impact grid of shape (1, 1) and an SNR grid of shape
  (1, 2) differ in shape, and the table is built without an error.\<close>

theorem head_stats_shape_mismatch_counterexample:
  "shape (impacts \<lparr>impacts = \<lparr>shape = [1, 1], storage = [5]\<rparr>,
                   snrs = \<lparr>shape = [1, 2], storage = [3, 4]\<rparr>,
                   p_values = \<lparr>shape = [1, 1], storage = [0]\<rparr>\<rparr>)
   \<noteq> shape (snrs \<lparr>impacts = \<lparr>shape = [1, 1], storage = [5]\<rparr>,
                   snrs = \<lparr>shape = [1, 2], storage = [3, 4]\<rparr>,
                   p_values = \<lparr>shape = [1, 1], storage = [0]\<rparr>\<rparr>)
   \<and> head_stats \<lparr>impacts = \<lparr>shape = [1, 1], storage = [5]\<rparr>,
                 snrs = \<lparr>shape = [1, 2], storage = [3, 4]\<rparr>,
                 p_values = \<lparr>shape = [1, 1], storage = [0]\<rparr>\<rparr> = Inr [(0, 0, 5, 3)]"
  by (simp add: head_stats_def ndim_def item2_def select2_def select_def item_def)

subsection \<open>Residue lookup\<close>

lemma traverse_result:
  "\<forall>x \<in> set xs. f x = (if P x then Inr (g x) else Inl e) \<Longrightarrow>
   traverse f xs = (if \<forall>x \<in> set xs. P x then Inr (map g xs) else Inl e)"
  by (induction xs) auto

lemma py_getitem_result:
  "py_getitem xs i =
     (if - int (length xs) \<le> i \<and> i < int (length xs)
      then Inr (xs ! nat (if i < 0 then i + int (length xs) else i))
      else Inl IndexError)"
  by (auto simp: py_getitem_def Let_def)

lemma residue_3l_result:
  assumes "set sequence \<subseteq> dom one_to_three"
  shows "residue_3l one_to_three sequence p =
     (if - int (length sequence) < p \<and> p \<le> int (length sequence)
      then Inr (the (one_to_three (sequence ! nat (if p \<le> 0 then p - 1 + int (length sequence) else p - 1))))
      else Inl IndexError)"
proof (cases "- int (length sequence) < p \<and> p \<le> int (length sequence)")
  case True
  let ?j = "nat (if p \<le> 0 then p - 1 + int (length sequence) else p - 1)"
  have "?j < length sequence" using True by auto
  then have "sequence ! ?j \<in> dom one_to_three" using assms nth_mem by blast
  then obtain name where "one_to_three (sequence ! ?j) = Some name" by blast
  then show ?thesis using True
    by (auto simp: residue_3l_def py_getitem_result dict_getitem_def)
next
  case False
  then show ?thesis by (auto simp: residue_3l_def py_getitem_result)
qed

lemma a2a_letters: "set a2a_sequence \<subseteq> dom protein_letters_1to3"
  by (simp add: a2a_sequence_def protein_letters_1to3_def dom_map_of_conv_image_fst)

lemma a2a_length: "length a2a_sequence = 325"
  by (simp add: a2a_sequence_def)

text \<open>
  C9, as the script has it. The lookup is \<open>sequence[i - 1]\<close> with Python's indexing, so
  a position from \<open>-length(sequence) + 1\<close> to 0 wraps around to a residue counted from
  the end and raises nothing. For a sequence whose letters are all in the letter table:
  if some requested position is above \<open>length(sequence)\<close> or at most
  \<open>-length(sequence)\<close>, the run ends at the residue-name lookup with an IndexError and
  nothing written; if every position is above \<open>-length(sequence)\<close> and at most
  \<open>length(sequence)\<close>, the lookup returns one name per position.
\<close>

theorem site_out_of_range:
  assumes "set sequence \<subseteq> dom one_to_three"
  shows "((\<exists>p \<in> set allosteric_res. int (length sequence) < p \<or> p \<le> - int (length sequence))
          \<longrightarrow> main_with an ttest_1samp percentile one_to_three sequence allosteric_res
                = nothing\<lparr>failure := Some (ResidueLookup, IndexError)\<rparr>)
       \<and> ((\<forall>p \<in> set allosteric_res. - int (length sequence) < p \<and> p \<le> int (length sequence))
          \<longrightarrow> (\<exists>names. allosteric_res_3l one_to_three sequence allosteric_res = Inr names
                        \<and> length names = length allosteric_res))"
proof -
  let ?ok = "\<lambda>p. - int (length sequence) < p \<and> p \<le> int (length sequence)"
  let ?g = "\<lambda>p. the (one_to_three (sequence ! nat (if p \<le> 0 then p - 1 + int (length sequence) else p - 1)))"
  have "traverse (residue_3l one_to_three sequence) allosteric_res =
      (if \<forall>p \<in> set allosteric_res. ?ok p then Inr (map ?g allosteric_res) else Inl IndexError)"
    by (rule traverse_result) (simp add: residue_3l_result [OF assms])
  then have look: "allosteric_res_3l one_to_three sequence allosteric_res =
      (if \<forall>p \<in> set allosteric_res. ?ok p then Inr (map ?g allosteric_res) else Inl IndexError)"
    by (simp add: allosteric_res_3l_def)
  show ?thesis
  proof (intro conjI impI)
    assume "\<exists>p \<in> set allosteric_res. int (length sequence) < p \<or> p \<le> - int (length sequence)"
    then have "\<not> (\<forall>p \<in> set allosteric_res. ?ok p)" by force
    then have "allosteric_res_3l one_to_three sequence allosteric_res = Inl IndexError"
      using look by simp
    then show "main_with an ttest_1samp percentile one_to_three sequence allosteric_res
                = nothing\<lparr>failure := Some (ResidueLookup, IndexError)\<rparr>"
      by (simp add: main_with_def)
  next
    assume "\<forall>p \<in> set allosteric_res. ?ok p"
    then show "\<exists>names. allosteric_res_3l one_to_three sequence allosteric_res = Inr names
                        \<and> length names = length allosteric_res"
      using look by simp
  qed
qed

theorem site_out_of_range_witness:
  "set a2a_sequence \<subseteq> dom protein_letters_1to3
   \<and> main_with demo_analyzer demo_ttest demo_percentile protein_letters_1to3 a2a_sequence [169, 326]
       = nothing\<lparr>failure := Some (ResidueLookup, IndexError)\<rparr>
   \<and> (\<exists>names. allosteric_res_3l protein_letters_1to3 a2a_sequence a2a_allosteric_res = Inr names
          \<and> length names = length a2a_allosteric_res)"
  using site_out_of_range [OF a2a_letters, of "[169, 326]" demo_analyzer demo_ttest demo_percentile]
    site_out_of_range [OF a2a_letters, of a2a_allosteric_res demo_analyzer demo_ttest demo_percentile]
  by (simp add: a2a_letters a2a_length a2a_allosteric_res_def)

text \<open>The claim as stated fails: positions 0 and -5 are outside 1..325, and the lookup
  on the script's sequence returns the names of its last and sixth-last residues.\<close>

theorem site_wraps_counterexample:
  "\<not> (1 \<le> (0::int) \<and> (0::int) \<le> int (length a2a_sequence))
   \<and> \<not> (1 \<le> (- 5::int) \<and> (- 5::int) \<le> int (length a2a_sequence))
   \<and> allosteric_res_3l protein_letters_1to3 a2a_sequence [0, - 5] = Inr [''Gln'', ''Glu'']"
  by (simp add: allosteric_res_3l_def residue_3l_def py_getitem_def dict_getitem_def
      a2a_sequence_def protein_letters_1to3_def)

subsection \<open>The percentile report\<close>








subsection \<open>The small run, step by step\<close>

lemma demo_lookup:
  "allosteric_res_3l protein_letters_1to3 a2a_sequence a2a_allosteric_res
     = Inr [''Glu'', ''Asn'', ''Ser'', ''His'']"
  by (simp add: allosteric_res_3l_def residue_3l_def py_getitem_def dict_getitem_def
      a2a_sequence_def a2a_allosteric_res_def protein_letters_1to3_def)

lemma demo_head_stats:
  "head_stats demo_results = Inr [(0, 0, 1, 1), (0, 1, 5, 3), (1, 0, 1, 2), (1, 1, 5, 3)]"
  by (simp add: head_stats_def demo_results_def ndim_def item2_def select2_def select_def
      item_def upt_rec)

lemma demo_selection:
  "sensitive_heads (t_stats demo_ttest [(0, 0, 1, 1), (0, 1, 5, 3), (1, 0, 1, 2), (1, 1, 5, 3)])
     = [(0, 1), (1, 1)]"
  by (simp add: sensitive_heads_def t_stats_def demo_ttest_def)


lemma demo_report:
  "percentile_report demo_percentile a2a_sequence demo_accumulated
     = (Some [header, Row CHR ''I'' 3 0.9], None)"
  by (simp add: percentile_report_def np_percentile_def demo_percentile_def write_rows.simps
      dict_getitem_def py_getitem_def demo_accumulated_def a2a_sequence_def Let_def)

subsection \<open>Empty inputs of the later steps\<close>

text \<open>
  C3, as the script has it. The percentile is computed before the report file is opened,
  and \<open>np.percentile\<close> raises on an empty list: when the accumulated-attention mapping
  is empty, the run ends there with an IndexError, and no report (not even the header) and
  no later file is written.
\<close>

theorem empty_attention_fails:
  assumes "allosteric_res_3l one_to_three sequence allosteric_res = Inr names"
    and "head_stats (analyze_protein an sequence allosteric_res) = Inr hs"
    and "compute_accumulated_average_attention an (get_attention_maps an sequence) sequence
           allosteric_res (sensitive_heads (t_stats ttest_1samp hs)) = []"
  shows "main_with an ttest_1samp percentile one_to_three sequence allosteric_res
           = nothing\<lparr>selected := Some (sensitive_heads (t_stats ttest_1samp hs)),
                      failure := Some (Percentile, IndexError)\<rparr>
       \<and> report_file (main_with an ttest_1samp percentile one_to_three sequence allosteric_res) = None"
  using assms
  by (simp add: main_with_def Let_def percentile_report_def np_percentile_def nothing_def)

theorem empty_attention_fails_witness:
  "compute_accumulated_average_attention
      (demo_analyzer\<lparr>compute_accumulated_average_attention := \<lambda>maps sequence sites heads. []\<rparr>)
      demo_attention a2a_sequence a2a_allosteric_res [(0, 1), (1, 1)] = []
   \<and> main (demo_analyzer\<lparr>compute_accumulated_average_attention := \<lambda>maps sequence sites heads. []\<rparr>)
        demo_ttest demo_percentile protein_letters_1to3
       = nothing\<lparr>selected := Some [(0, 1), (1, 1)], failure := Some (Percentile, IndexError)\<rparr>"
proof -
  let ?an = "demo_analyzer\<lparr>compute_accumulated_average_attention := \<lambda>maps sequence sites heads. []\<rparr>"
  have hs: "head_stats (analyze_protein ?an a2a_sequence a2a_allosteric_res)
      = Inr [(0, 0, 1, 1), (0, 1, 5, 3), (1, 0, 1, 2), (1, 1, 5, 3)]"
    unfolding demo_head_stats [symmetric] by (simp add: demo_analyzer_def)
  have acc: "compute_accumulated_average_attention ?an (get_attention_maps ?an a2a_sequence)
      a2a_sequence a2a_allosteric_res
      (sensitive_heads (t_stats demo_ttest [(0, 0, 1, 1), (0, 1, 5, 3), (1, 0, 1, 2), (1, 1, 5, 3)]))
      = []"
    by simp
  show ?thesis
    using empty_attention_fails [OF demo_lookup hs acc, unfolded demo_selection]
    by (simp add: main_def)
qed

text \<open>The claim as stated fails: with an analyzer that returns the empty mapping the
  run fails and leaves no report holding only the header.\<close>

theorem empty_attention_counterexample:
  "failure (main (demo_analyzer\<lparr>compute_accumulated_average_attention := \<lambda>maps sequence sites heads. []\<rparr>)
              demo_ttest demo_percentile protein_letters_1to3) \<noteq> None
   \<and> report_file (main (demo_analyzer\<lparr>compute_accumulated_average_attention := \<lambda>maps sequence sites heads. []\<rparr>)
                    demo_ttest demo_percentile protein_letters_1to3) \<noteq> Some [header]"
  by (simp add: main_def main_with_def demo_lookup demo_analyzer_def demo_head_stats
      percentile_report_def np_percentile_def nothing_def Let_def)




subsection \<open>The p-values tensor\<close>

lemma head_stats_p_values: "head_stats (res\<lparr>p_values := q\<rparr>) = head_stats res"
  by (simp add: head_stats_def)

text \<open>
  C10. The selection does not depend on the p-values tensor the analyzer returns: two runs
  whose analyzers differ only in that tensor select the same heads (or both fail before the
  selection).
\<close>

theorem selection_ignores_p_values:
  "selected (main_with (an\<lparr>analyze_protein :=
                \<lambda>sequence sites. (analyze_protein an sequence sites)\<lparr>p_values := q\<rparr>\<rparr>)
              ttest_1samp percentile one_to_three sequence allosteric_res)
   = selected (main_with an ttest_1samp percentile one_to_three sequence allosteric_res)"
  by (simp add: main_with_def Let_def head_stats_p_values nothing_def
      split: sum.splits prod.splits option.splits)

subsection \<open>The persisted attention maps\<close>

lemma traverse_Inr:
  "traverse f xs = Inr ys \<Longrightarrow> length ys = length xs \<and> (\<forall>k < length xs. f (xs ! k) = Inr (ys ! k))"
proof (induction xs arbitrary: ys)
  case Nil
  then show ?case by simp
next
  case (Cons x xs)
  then obtain y ys' where y: "f x = Inr y" and ys': "traverse f xs = Inr ys'" and eq: "ys = y # ys'"
    by (auto split: sum.splits)
  from Cons.IH [OF ys'] show ?case using y eq by (auto simp: nth_Cons split: nat.splits)
qed

lemma select_wf:
  assumes "select t i = Inr u" "wf_tensor t"
  shows "wf_tensor u \<and> shape u = tl (shape t)"
proof -
  from assms(1) obtain n rest where sh: "shape t = n # rest" and i: "i < n"
    and u: "u = \<lparr>shape = rest, storage = take (prod_list rest) (drop (i * prod_list rest) (storage t))\<rparr>"
    by (auto simp: select_def split: list.splits if_splits)
  have "i * prod_list rest + prod_list rest \<le> n * prod_list rest"
    using i by (metis Suc_leI mult_Suc mult_le_mono1 add.commute)
  then have "prod_list rest \<le> length (storage t) - i * prod_list rest"
    using assms(2) sh by (simp add: wf_tensor_def)
  then show ?thesis using u sh by (simp add: wf_tensor_def)
qed

lemma attention_map_wf:
  assumes "attention_map att lh = Inr m" "wf_tensor att"
  shows "wf_tensor m \<and> shape m = drop 3 (shape att)"
proof -
  from assms(1) obtain b r where b: "select att 0 = Inr b" and r: "select b (fst lh) = Inr r"
    and m: "select r (snd lh) = Inr m"
    by (auto simp: attention_map_def select2_def split: sum.splits)
  from select_wf [OF b assms(2)] have wb: "wf_tensor b" and sb: "shape b = tl (shape att)" by simp_all
  from select_wf [OF r wb] have wr: "wf_tensor r" and sr: "shape r = tl (shape b)" by simp_all
  from select_wf [OF m wr] have wm: "wf_tensor m" and sm: "shape m = tl (shape r)" by simp_all
  have "tl (tl (tl (shape att))) = drop 3 (shape att)"
    by (simp add: drop_Suc numeral_3_eq_3 drop_tl)
  then show ?thesis using wm sm sr sb by simp
qed

lemma concat_slice:
  "\<forall>x \<in> set xss. length x = n \<Longrightarrow> k < length xss \<Longrightarrow>
   take n (drop (k * n) (concat xss)) = xss ! k"
proof (induction xss arbitrary: k)
  case Nil
  then show ?case by simp
next
  case (Cons x xss)
  show ?case
  proof (cases k)
    case 0
    then show ?thesis using Cons.prems by simp
  next
    case (Suc j)
    then have "take n (drop (j * n) (concat xss)) = xss ! j"
      using Cons by simp
    then show ?thesis using Cons.prems Suc by simp
  qed
qed

lemma storage_unsqueeze0: "storage \<circ> unsqueeze0 = storage"
  by (rule ext) (simp add: unsqueeze0_def)

lemma torch_cat_unsqueeze:
  assumes "ms \<noteq> []" "\<forall>m \<in> set ms. shape m = sh"
  shows "torch_cat (map unsqueeze0 ms)
     = Inr \<lparr>shape = length ms # sh, storage = concat (map storage ms)\<rparr>"
proof -
  have "sum_list (map (\<lambda>u. hd (shape u)) (map unsqueeze0 ms)) = length ms"
    by (induction ms) (simp_all add: unsqueeze0_def)
  then show ?thesis using assms
    by (cases ms) (auto simp: torch_cat_def unsqueeze0_def storage_unsqueeze0)
qed

lemma sensitive_attention_tensor_slices:
  assumes "sensitive_attention_tensor att sel = Inr t" "wf_tensor att" "sel \<noteq> []"
  shows "shape t = length sel # drop 3 (shape att)
     \<and> (\<forall>k < length sel. \<exists>m. attention_map att (sel ! k) = Inr m \<and> select t k = Inr m)"
proof -
  from assms(1) obtain ms where ms: "traverse (attention_map att) sel = Inr ms"
    and cat: "torch_cat (map unsqueeze0 ms) = Inr t"
    by (auto simp: sensitive_attention_tensor_def split: sum.splits)
  from traverse_Inr [OF ms] have len: "length ms = length sel"
    and each: "\<And>k. k < length sel \<Longrightarrow> attention_map att (sel ! k) = Inr (ms ! k)" by simp_all
  let ?sh = "drop 3 (shape att)"
  have all: "\<forall>m \<in> set ms. wf_tensor m \<and> shape m = ?sh"
  proof
    fix m assume "m \<in> set ms"
    then obtain k where "k < length ms" "m = ms ! k" by (metis in_set_conv_nth)
    then show "wf_tensor m \<and> shape m = ?sh"
      using each [of k] len attention_map_wf [OF _ assms(2)] by simp
  qed
  have ne: "ms \<noteq> []" using len assms(3) by auto
  have t: "t = \<lparr>shape = length ms # ?sh, storage = concat (map storage ms)\<rparr>"
    using torch_cat_unsqueeze [OF ne, of ?sh] all cat by simp
  have slice: "select t k = Inr (ms ! k)" if k: "k < length ms" for k
  proof -
    have "\<forall>x \<in> set (map storage ms). length x = prod_list ?sh"
      using all by (auto simp: wf_tensor_def)
    then have "take (prod_list ?sh) (drop (k * prod_list ?sh) (concat (map storage ms)))
        = map storage ms ! k"
      using k by (intro concat_slice) simp_all
    moreover have "shape (ms ! k) = ?sh" using all k by simp
    ultimately show ?thesis using k t by (simp add: select_def)
  qed
  show ?thesis using t len each slice by auto
qed

lemma head_info_of_heads: "head_info_of res sel = Inr hi \<Longrightarrow> hi_sensitive_heads hi = sel"
  by (auto simp: head_info_of_def split: sum.splits)

lemma demo_wf: "wf_tensor demo_attention"
  by (simp add: wf_tensor_def demo_attention_def)

lemma demo_map_01: "attention_map demo_attention (0, Suc 0) = Inr \<lparr>shape = [2, 2], storage = [5, 6, 7, 8]\<rparr>"
  by (simp add: attention_map_def select2_def select_def demo_attention_def)

lemma demo_map_11: "attention_map demo_attention (Suc 0, Suc 0) = Inr \<lparr>shape = [2, 2], storage = [13, 14, 15, 16]\<rparr>"
  by (simp add: attention_map_def select2_def select_def demo_attention_def)

lemma demo_tensor:
  "sensitive_attention_tensor demo_attention [(0, 1), (1, 1)]
     = Inr \<lparr>shape = [2, 2, 2], storage = [5, 6, 7, 8, 13, 14, 15, 16]\<rparr>"
  by (simp add: sensitive_attention_tensor_def demo_map_01 demo_map_11 torch_cat_def unsqueeze0_def)

lemma demo_mean_map:
  "mean_attention_map demo_results demo_attention [(0, 1), (1, 1)]
     = Inr (Some \<lparr>shape = [2, 2], storage = [9, 10, 11, 12]\<rparr>)"
  by (simp add: mean_attention_map_def demo_map_01 demo_map_11 torch_stack_def torch_cat_def
      unsqueeze0_def torch_mean0_def select2_def select_def demo_results_def upt_rec)

lemma demo_keys: "head_key (0, Suc 0) = ''0_1''" "head_key (Suc 0, Suc 0) = ''1_1''"
  by (simp_all add: head_key_def str_nat.simps)

lemma demo_head_info:
  "head_info_of demo_results [(0, 1), (1, 1)]
     = Inr \<lparr>hi_sensitive_heads = [(0, 1), (1, 1)],
            hi_impact_scores = [(''0_1'', 5), (''1_1'', 5)],
            hi_snr_values = [(''0_1'', 3), (''1_1'', 3)]\<rparr>"
  by (simp add: head_info_of_def item2_def select2_def select_def item_def demo_results_def
      dict_of_def demo_keys)

lemma demo_run:
  "main demo_analyzer demo_ttest demo_percentile protein_letters_1to3
     = \<lparr>failure = None, selected = Some [(0, 1), (1, 1)],
        report_file = Some [header, Row CHR ''I'' 3 0.9],
        mean_map = Some \<lparr>shape = [2, 2], storage = [9, 10, 11, 12]\<rparr>,
        head_info_file = Some \<lparr>hi_sensitive_heads = [(0, 1), (1, 1)],
            hi_impact_scores = [(''0_1'', 5), (''1_1'', 5)],
            hi_snr_values = [(''0_1'', 3), (''1_1'', 3)]\<rparr>,
        attention_file = Some \<lparr>shape = [2, 2, 2], storage = [5, 6, 7, 8, 13, 14, 15, 16]\<rparr>\<rparr>"
proof -
  have sel: "sensitive_heads (t_stats demo_ttest [(0, 0, 1, 1), (0, 1, 5, 3), (1, 0, 1, 2), (1, 1, 5, 3)])
      = [(0, 1), (1, 1)]" by (rule demo_selection)
  show ?thesis
    unfolding main_def main_with_def demo_lookup Let_def
    apply (simp only: demo_analyzer_def analyzer.simps demo_head_stats sum.case sel demo_report
        prod.case option.case demo_mean_map demo_head_info demo_tensor)
    apply (simp add: nothing_def)
    done
qed

text \<open>
  C8. When a run ends without an exception and has selected at least one head, both
  records are written, the sensitive-head record lists the selection, the stacked tensor
  has one slice per selected head, and its k-th slice is the attention map of the k-th
  pair of the list.
\<close>

theorem attention_record_matches_heads:
  assumes "wf_tensor (get_attention_maps an sequence)"
    and "failure (main_with an ttest_1samp percentile one_to_three sequence allosteric_res) = None"
    and "selected (main_with an ttest_1samp percentile one_to_three sequence allosteric_res) = Some sel"
    and "sel \<noteq> []"
  shows "\<exists>hi t.
      head_info_file (main_with an ttest_1samp percentile one_to_three sequence allosteric_res) = Some hi
    \<and> hi_sensitive_heads hi = sel
    \<and> attention_file (main_with an ttest_1samp percentile one_to_three sequence allosteric_res) = Some t
    \<and> shape t = length sel # drop 3 (shape (get_attention_maps an sequence))
    \<and> (\<forall>k < length sel. \<exists>m.
          attention_map (get_attention_maps an sequence) (sel ! k) = Inr m \<and> select t k = Inr m)"
proof -
  let ?r = "main_with an ttest_1samp percentile one_to_three sequence allosteric_res"
  let ?att = "get_attention_maps an sequence"
  let ?res = "analyze_protein an sequence allosteric_res"
  from assms(2,3,4) obtain hi t where hi: "head_info_of ?res sel = Inr hi"
    and t: "sensitive_attention_tensor ?att sel = Inr t"
    and f1: "head_info_file ?r = Some hi" and f2: "attention_file ?r = Some t"
    by (auto simp: main_with_def Let_def nothing_def
        split: sum.splits prod.splits option.splits if_splits)
  from sensitive_attention_tensor_slices [OF t assms(1,4)] head_info_of_heads [OF hi] f1 f2
  show ?thesis by blast
qed

theorem attention_record_matches_heads_witness:
  "wf_tensor (get_attention_maps demo_analyzer a2a_sequence)
   \<and> failure (main demo_analyzer demo_ttest demo_percentile protein_letters_1to3) = None
   \<and> selected (main demo_analyzer demo_ttest demo_percentile protein_letters_1to3) = Some [(0, 1), (1, 1)]
   \<and> attention_file (main demo_analyzer demo_ttest demo_percentile protein_letters_1to3)
       = Some \<lparr>shape = [2, 2, 2], storage = [5, 6, 7, 8, 13, 14, 15, 16]\<rparr>
   \<and> select \<lparr>shape = [2, 2, 2], storage = [5, 6, 7, 8, 13, 14, 15, 16]\<rparr> 0
       = attention_map demo_attention (0, 1)
   \<and> select \<lparr>shape = [2, 2, 2], storage = [5, 6, 7, 8, 13, 14, 15, 16]\<rparr> 1
       = attention_map demo_attention (1, 1)"
proof -
  let ?r = "main_with demo_analyzer demo_ttest demo_percentile protein_letters_1to3 a2a_sequence a2a_allosteric_res"
  let ?sel = "[(0, 1), (1, 1)] :: (nat \<times> nat) list"
  have att: "get_attention_maps demo_analyzer a2a_sequence = demo_attention"
    by (simp add: demo_analyzer_def)
  have wf: "wf_tensor (get_attention_maps demo_analyzer a2a_sequence)"
    unfolding att by (rule demo_wf)
  have run: "failure ?r = None" "selected ?r = Some ?sel"
    "attention_file ?r = Some \<lparr>shape = [2, 2, 2], storage = [5, 6, 7, 8, 13, 14, 15, 16]\<rparr>"
    using demo_run unfolding main_def by simp_all
  have ne: "?sel \<noteq> []" by simp
  from attention_record_matches_heads [OF wf run(1,2) ne] obtain t where
    t: "attention_file ?r = Some t"
    and slices: "\<forall>k < length ?sel. \<exists>m.
          attention_map (get_attention_maps demo_analyzer a2a_sequence) (?sel ! k) = Inr m
          \<and> select t k = Inr m"
    by blast
  from t run(3) have teq: "t = \<lparr>shape = [2, 2, 2], storage = [5, 6, 7, 8, 13, 14, 15, 16]\<rparr>"
    by simp
  from slices [rule_format, of 0]
  have "\<exists>m. attention_map demo_attention (?sel ! 0) = Inr m \<and> select t 0 = Inr m"
    unfolding att by simp
  then have s0: "select t 0 = attention_map demo_attention (0, 1)" by auto
  from slices [rule_format, of 1]
  have "\<exists>m. attention_map demo_attention (?sel ! 1) = Inr m \<and> select t 1 = Inr m"
    unfolding att by simp
  then have s1: "select t 1 = attention_map demo_attention (1, 1)" by auto
  show ?thesis using wf run s0 s1 unfolding teq main_def by simp
qed

end
